theory Spec2Isabelle
  imports Main "HOL-Library.AList"
begin

section \<open>The ZMQ communication driver (maro/communication/driver/zmq_driver.py)\<close>

subsection \<open>Values\<close>

text \<open>
  A message carries at least a source, a destination and a tag; the driver never looks
  inside the payload.
\<close>

record message =
  source :: string
  destination :: string
  tag :: string
  payload :: string

text \<open>
  The keys of a peer's address dict. The annotation of \<open>connect\<close> says \<open>str\<close>, its
  docstring shows the integer constant \<open>zmq.PULL\<close>; the code passes the key through
  \<open>int(...)\<close>, which accepts both.
\<close>

datatype socket_type = IntKey int | StrKey string

text \<open>
  The exceptions the driver meets or raises. Each one keeps the values that the source
  interpolates into its message: \<open>PeersConnectionError p e\<close> stands for
  \<open>PeersConnectionError(f"Driver cannot connect to {p}! Due to {str(e)}")\<close>, and likewise
  for the others. All of them are subclasses of Python's \<open>Exception\<close>, so an
  \<open>except Exception\<close> clause catches every one.
\<close>

datatype exn =
    KeyError string
  | ValueError string
  | ZMQError string
  | Again
  | SocketTypeError socket_type
  | PeersConnectionError string exn
  | DriverReceiveError exn
  | DriverSendError exn

text \<open>A call either returns a value or raises.\<close>

datatype 'a result = Returned 'a | Raised exn

text \<open>What \<open>send\<close> and \<open>broadcast\<close> hand back to the caller.\<close>

datatype pyval = PyNone | PyException exn

datatype endpoint = Unicast | Broadcast

text \<open>
  An outbound socket (PUSH for unicast, PUB for broadcast): its send timeout option, the
  addresses it is connected to, and the messages handed to it so far.
\<close>

record out_socket =
  sndtimeo :: "int option"
  connected :: "string list"
  sent :: "message list"

text \<open>
  The driver object. The two receivers are the queues of messages that have arrived on
  the PULL and the SUB socket and have not been read yet; \<open>unicast_sender_dict\<close> is the
  Python dict in insertion order.
\<close>

record zmq_driver =
  protocol :: string
  send_timeout :: int
  receive_timeout :: int
  unicast_receiver :: "message list"
  unicast_sender_dict :: "(string \<times> out_socket) list"
  broadcast_sender :: out_socket
  broadcast_receiver :: "message list"

text \<open>
  The surroundings of the driver: the outcome of every call into the ZMQ library and of
  \<open>int\<close> on a string. \<open>None\<close> means that the call succeeds.
\<close>

record env =
  int_of_str :: "string \<Rightarrow> int option"
  bind_error :: "endpoint \<Rightarrow> exn option"
  socket_error :: "string \<Rightarrow> exn option"
  setsockopt_error :: "int \<Rightarrow> exn option"
  connect_error :: "string \<Rightarrow> exn option"
  send_error :: "out_socket \<Rightarrow> message \<Rightarrow> exn option"

definition zmq_PULL :: int where
  "zmq_PULL = 7"

definition zmq_SUB :: int where
  "zmq_SUB = 2"

subsection \<open>Construction\<close>

definition fresh_socket :: out_socket where
  "fresh_socket = \<lparr>sndtimeo = None, connected = [], sent = []\<rparr>"

text \<open>
  \<open>__init__\<close> with \<open>_setup_sockets\<close>: the PULL socket is bound, the dict of PUSH sockets
  starts empty, the PUB socket gets the send timeout, the SUB socket is bound. A failure
  of any library call leaves no driver.
\<close>

definition init :: "env \<Rightarrow> string \<Rightarrow> int \<Rightarrow> int \<Rightarrow> zmq_driver result" where
  "init E proto snd_to rcv_to =
     (case bind_error E Unicast of
        Some e \<Rightarrow> Raised e
      | None \<Rightarrow>
         (case setsockopt_error E snd_to of
            Some e \<Rightarrow> Raised e
          | None \<Rightarrow>
             (case bind_error E Broadcast of
                Some e \<Rightarrow> Raised e
              | None \<Rightarrow>
                 Returned \<lparr>protocol = proto, send_timeout = snd_to, receive_timeout = rcv_to,
                   unicast_receiver = [], unicast_sender_dict = [],
                   broadcast_sender = fresh_socket\<lparr>sndtimeo := Some snd_to\<rparr>,
                   broadcast_receiver = []\<rparr>)))"

subsection \<open>connect\<close>

fun py_int :: "env \<Rightarrow> socket_type \<Rightarrow> int result" where
  "py_int E (IntKey n) = Returned n"
| "py_int E (StrKey s) =
     (case int_of_str E s of None \<Rightarrow> Raised (ValueError s) | Some n \<Rightarrow> Returned n)"

text \<open>\<open>self._unicast_sender_dict[peer_name].f(...)\<close>: the socket stored under the name changes.\<close>

definition with_sender :: "string \<Rightarrow> (out_socket \<Rightarrow> out_socket) \<Rightarrow> zmq_driver \<Rightarrow> zmq_driver" where
  "with_sender peer_name f d =
     d\<lparr>unicast_sender_dict := AList.map_entry peer_name f (unicast_sender_dict d)\<rparr>"

text \<open>
  The body of the \<open>try\<close> block for one address entry, lines 98 to 107. The driver that is
  returned is the one the statements executed so far have left behind.
\<close>

definition connect_try ::
  "env \<Rightarrow> string \<Rightarrow> socket_type \<Rightarrow> string \<Rightarrow> zmq_driver \<Rightarrow> unit result \<times> zmq_driver" where
  "connect_try E peer_name socket_type address d =
     (case py_int E socket_type of
        Raised e \<Rightarrow> (Raised e, d)
      | Returned n \<Rightarrow>
          if n = zmq_PULL then
            (case socket_error E peer_name of
               Some e \<Rightarrow> (Raised e, d)
             | None \<Rightarrow>
                 let d1 = d\<lparr>unicast_sender_dict :=
                             AList.update peer_name fresh_socket (unicast_sender_dict d)\<rparr>
                 in (case setsockopt_error E (send_timeout d1) of
                       Some e \<Rightarrow> (Raised e, d1)
                     | None \<Rightarrow>
                         let d2 = with_sender peer_name
                                    (\<lambda>s. s\<lparr>sndtimeo := Some (send_timeout d1)\<rparr>) d1
                         in (case connect_error E address of
                               Some e \<Rightarrow> (Raised e, d2)
                             | None \<Rightarrow>
                                 (Returned (),
                                  with_sender peer_name
                                    (\<lambda>s. s\<lparr>connected := connected s @ [address]\<rparr>) d2))))
          else if n = zmq_SUB then
            (case connect_error E address of
               Some e \<Rightarrow> (Raised e, d)
             | None \<Rightarrow>
                 (Returned (),
                  d\<lparr>broadcast_sender := (broadcast_sender d)
                       \<lparr>connected := connected (broadcast_sender d) @ [address]\<rparr>\<rparr>))
          else (Raised (SocketTypeError socket_type), d))"

text \<open>The \<open>try\<close> statement with its handler, lines 97 to 109.\<close>

definition connect_entry ::
  "env \<Rightarrow> string \<Rightarrow> socket_type \<times> string \<Rightarrow> zmq_driver \<Rightarrow> unit result \<times> zmq_driver" where
  "connect_entry E peer_name entry d =
     (case connect_try E peer_name (fst entry) (snd entry) d of
        (Raised e, d') \<Rightarrow> (Raised (PeersConnectionError peer_name e), d')
      | (Returned u, d') \<Rightarrow> (Returned u, d'))"

text \<open>The inner loop, over the items of one peer's address dict.\<close>

fun connect_addresses ::
  "env \<Rightarrow> string \<Rightarrow> (socket_type \<times> string) list \<Rightarrow> zmq_driver \<Rightarrow> unit result \<times> zmq_driver" where
  "connect_addresses E peer_name [] d = (Returned (), d)"
| "connect_addresses E peer_name (entry # entries) d =
     (case connect_entry E peer_name entry d of
        (Raised e, d') \<Rightarrow> (Raised e, d')
      | (Returned u, d') \<Rightarrow> connect_addresses E peer_name entries d')"

text \<open>The outer loop, over the items of \<open>peers_address_dict\<close>.\<close>

fun connect ::
  "env \<Rightarrow> zmq_driver \<Rightarrow> (string \<times> (socket_type \<times> string) list) list
     \<Rightarrow> unit result \<times> zmq_driver" where
  "connect E d [] = (Returned (), d)"
| "connect E d (peer # peers) =
     (case connect_addresses E (fst peer) (snd peer) d of
        (Raised e, d') \<Rightarrow> (Raised e, d')
      | (Returned u, d') \<Rightarrow> connect E d' peers)"

subsection \<open>send and broadcast\<close>

text \<open>
  The body of the \<open>try\<close> block of \<open>send\<close>, line 144: the dict lookup raises \<open>KeyError\<close>
  for an unknown destination, \<open>send_pyobj\<close> raises what the library reports
  (\<open>Again\<close> when the send timeout expires).
\<close>

definition send_try :: "env \<Rightarrow> zmq_driver \<Rightarrow> message \<Rightarrow> unit result \<times> zmq_driver" where
  "send_try E d m =
     (case map_of (unicast_sender_dict d) (destination m) of
        None \<Rightarrow> (Raised (KeyError (destination m)), d)
      | Some s \<Rightarrow>
          (case send_error E s m of
             Some e \<Rightarrow> (Raised e, d)
           | None \<Rightarrow>
               (Returned (),
                with_sender (destination m) (\<lambda>s. s\<lparr>sent := sent s @ [m]\<rparr>) d)))"

text \<open>
  \<open>send\<close>, lines 143 to 147: the handler returns the error; when the body completes, the
  function falls off its end and returns \<open>None\<close>.
\<close>

definition send :: "env \<Rightarrow> zmq_driver \<Rightarrow> message \<Rightarrow> pyval result \<times> zmq_driver" where
  "send E d m =
     (case send_try E d m of
        (Raised e, d') \<Rightarrow> (Returned (PyException (DriverSendError e)), d')
      | (Returned u, d') \<Rightarrow> (Returned PyNone, d'))"

definition broadcast_try :: "env \<Rightarrow> zmq_driver \<Rightarrow> message \<Rightarrow> unit result \<times> zmq_driver" where
  "broadcast_try E d m =
     (case send_error E (broadcast_sender d) m of
        Some e \<Rightarrow> (Raised e, d)
      | None \<Rightarrow>
          (Returned (),
           d\<lparr>broadcast_sender := (broadcast_sender d)
                \<lparr>sent := sent (broadcast_sender d) @ [m]\<rparr>\<rparr>))"

definition broadcast :: "env \<Rightarrow> zmq_driver \<Rightarrow> message \<Rightarrow> pyval result \<times> zmq_driver" where
  "broadcast E d m =
     (case broadcast_try E d m of
        (Raised e, d') \<Rightarrow> (Returned (PyException (DriverSendError e)), d')
      | (Returned u, d') \<Rightarrow> (Returned PyNone, d'))"

subsection \<open>receive\<close>

text \<open>
  What happens on the network while the driver waits, in the order it happens: a message
  arrives at one of the two inbound endpoints, a silence lasts longer than the receive
  timeout, or the transport fails. The end of the list is silence for ever.
\<close>

datatype net_event = Arrive endpoint message | Quiet | Failure string

definition queue :: "endpoint \<Rightarrow> zmq_driver \<Rightarrow> message list" where
  "queue ep d = (case ep of Unicast \<Rightarrow> unicast_receiver d | Broadcast \<Rightarrow> broadcast_receiver d)"

definition set_queue :: "endpoint \<Rightarrow> message list \<Rightarrow> zmq_driver \<Rightarrow> zmq_driver" where
  "set_queue ep ms d =
     (case ep of Unicast \<Rightarrow> d\<lparr>unicast_receiver := ms\<rparr>
               | Broadcast \<Rightarrow> d\<lparr>broadcast_receiver := ms\<rparr>)"

definition enqueue :: "endpoint \<Rightarrow> message \<Rightarrow> zmq_driver \<Rightarrow> zmq_driver" where
  "enqueue ep m d = set_queue ep (queue ep d @ [m]) d"

text \<open>The registered endpoints that have a message to read.\<close>

definition ready :: "zmq_driver \<Rightarrow> endpoint list" where
  "ready d =
     (if unicast_receiver d \<noteq> [] then [Unicast] else []) @
     (if broadcast_receiver d \<noteq> [] then [Broadcast] else [])"

text \<open>
  \<open>poller.poll(timeout)\<close> with nothing to read: it returns at the first arrival, returns
  the empty list when the timeout expires first (never, for a negative timeout), and
  raises when the transport fails. \<open>None\<close> is a call that never returns.
\<close>

fun poll_wait ::
  "int \<Rightarrow> zmq_driver \<Rightarrow> net_event list
     \<Rightarrow> (endpoint list result \<times> zmq_driver \<times> net_event list) option" where
  "poll_wait t d [] = (if t < 0 then None else Some (Returned [], d, []))"
| "poll_wait t d (Arrive ep m # evs) = Some (Returned [ep], enqueue ep m d, evs)"
| "poll_wait t d (Quiet # evs) =
     (if t < 0 then poll_wait t d evs else Some (Returned [], d, evs))"
| "poll_wait t d (Failure s # evs) = Some (Raised (ZMQError s), d, evs)"

definition poll ::
  "int \<Rightarrow> zmq_driver \<Rightarrow> net_event list
     \<Rightarrow> (endpoint list result \<times> zmq_driver \<times> net_event list) option" where
  "poll t d evs =
     (if ready d \<noteq> [] then Some (Returned (ready d), d, evs)
      else if t = 0 then Some (Returned [], d, evs)
      else poll_wait t d evs)"

text \<open>
  \<open>recv_pyobj()\<close> on an inbound socket whose queue is empty. The driver sets no receive
  timeout on its sockets, so the call returns only when a message arrives at this
  endpoint; messages for the other endpoint are queued there meanwhile.
\<close>

fun recv_wait ::
  "endpoint \<Rightarrow> zmq_driver \<Rightarrow> net_event list
     \<Rightarrow> (message result \<times> zmq_driver \<times> net_event list) option" where
  "recv_wait ep d [] = None"
| "recv_wait ep d (Arrive ep' m # evs) =
     (if ep' = ep then Some (Returned m, d, evs) else recv_wait ep (enqueue ep' m d) evs)"
| "recv_wait ep d (Quiet # evs) = recv_wait ep d evs"
| "recv_wait ep d (Failure s # evs) = Some (Raised (ZMQError s), d, evs)"

definition recv_pyobj ::
  "endpoint \<Rightarrow> zmq_driver \<Rightarrow> net_event list
     \<Rightarrow> (message result \<times> zmq_driver \<times> net_event list) option" where
  "recv_pyobj ep d evs =
     (case queue ep d of
        m # ms \<Rightarrow> Some (Returned m, set_queue ep ms d, evs)
      | [] \<Rightarrow> recv_wait ep d evs)"

text \<open>One pass through the loop body of \<open>receive\<close>, lines 119 to 129, up to the \<open>yield\<close>.\<close>

definition receive_iteration ::
  "zmq_driver \<Rightarrow> net_event list \<Rightarrow> (message result \<times> zmq_driver \<times> net_event list) option" where
  "receive_iteration d evs =
     (case poll (receive_timeout d) d evs of
        None \<Rightarrow> None
      | Some (Raised e, d', evs') \<Rightarrow> Some (Raised (DriverReceiveError e), d', evs')
      | Some (Returned sockets, d', evs') \<Rightarrow>
          if Unicast \<in> set sockets then recv_pyobj Unicast d' evs'
          else recv_pyobj Broadcast d' evs')"

text \<open>
  \<open>receive\<close> is a generator. \<open>receive_next\<close> is one \<open>next()\<close> on it: a generator that
  has not started runs the loop body to the \<open>yield\<close>; one suspended at the \<open>yield\<close>
  first executes lines 133 and 134; one that has returned or raised is exhausted.
\<close>

datatype gen_state = Created | Suspended | Finished

datatype gen_out = Yield message | StopIteration | Raise exn

definition run_to_yield ::
  "zmq_driver \<Rightarrow> net_event list \<Rightarrow> (gen_out \<times> gen_state \<times> zmq_driver \<times> net_event list) option" where
  "run_to_yield d evs =
     (case receive_iteration d evs of
        None \<Rightarrow> None
      | Some (Raised e, d', evs') \<Rightarrow> Some (Raise e, Finished, d', evs')
      | Some (Returned m, d', evs') \<Rightarrow> Some (Yield m, Suspended, d', evs'))"

fun receive_next ::
  "bool \<Rightarrow> gen_state \<Rightarrow> zmq_driver \<Rightarrow> net_event list
     \<Rightarrow> (gen_out \<times> gen_state \<times> zmq_driver \<times> net_event list) option" where
  "receive_next is_continuous Created d evs = run_to_yield d evs"
| "receive_next is_continuous Suspended d evs =
     (if \<not> is_continuous then Some (StopIteration, Finished, d, evs)
      else run_to_yield d evs)"
| "receive_next is_continuous Finished d evs = Some (StopIteration, Finished, d, evs)"

text \<open>
  A caller that asks the generator for up to \<open>n\<close> items and keeps the messages, as
  \<open>for msg in driver.receive(...)\<close> does; it stops when the generator stops or raises.
\<close>

fun receive_take ::
  "nat \<Rightarrow> bool \<Rightarrow> gen_state \<Rightarrow> zmq_driver \<Rightarrow> net_event list \<Rightarrow> message list" where
  "receive_take 0 is_continuous g d evs = []"
| "receive_take (Suc n) is_continuous g d evs =
     (case receive_next is_continuous g d evs of
        Some (Yield m, g', d', evs') \<Rightarrow> m # receive_take n is_continuous g' d' evs'
      | _ \<Rightarrow> [])"

subsection \<open>The states a driver can be in\<close>

text \<open>
  A driver starts from \<open>init\<close>; every public operation, whether it returns or raises,
  leaves a driver behind. The surroundings may differ from call to call.
\<close>

inductive reachable :: "zmq_driver \<Rightarrow> bool" where
  r_init: "init E proto snd_to rcv_to = Returned d \<Longrightarrow> reachable d"
| r_connect: "reachable d \<Longrightarrow> connect E d peers = (r, d') \<Longrightarrow> reachable d'"
| r_send: "reachable d \<Longrightarrow> send E d m = (v, d') \<Longrightarrow> reachable d'"
| r_broadcast: "reachable d \<Longrightarrow> broadcast E d m = (v, d') \<Longrightarrow> reachable d'"
| r_receive:
    "reachable d \<Longrightarrow> receive_next c g d evs = Some (out, g', d', evs') \<Longrightarrow> reachable d'"

subsection \<open>Sample surroundings and messages\<close>

text \<open>Surroundings in which every library call succeeds and \<open>int\<close> reads two numerals.\<close>

definition env_ok :: env where
  "env_ok = \<lparr>int_of_str = (\<lambda>s. if s = ''7'' then Some 7 else if s = ''2'' then Some 2 else None),
             bind_error = (\<lambda>ep. None), socket_error = (\<lambda>p. None),
             setsockopt_error = (\<lambda>t. None), connect_error = (\<lambda>a. None),
             send_error = (\<lambda>s m. None)\<rparr>"

text \<open>The same, except that the address \<open>tcp://down:1\<close> refuses connections and writes time out.\<close>

definition env_down :: env where
  "env_down = env_ok\<lparr>connect_error :=
                        (\<lambda>a. if a = ''tcp://down:1'' then Some (ZMQError ''refused'') else None),
                      send_error := (\<lambda>s m. Some Again)\<rparr>"

definition driver0 :: zmq_driver where
  "driver0 = \<lparr>protocol = ''tcp'', send_timeout = 100, receive_timeout = 50,
              unicast_receiver = [], unicast_sender_dict = [],
              broadcast_sender = \<lparr>sndtimeo = Some 100, connected = [], sent = []\<rparr>,
              broadcast_receiver = []\<rparr>"

definition msg :: "string \<Rightarrow> string \<Rightarrow> message" where
  "msg src dst = \<lparr>source = src, destination = dst, tag = ''t'', payload = ''x''\<rparr>"

section \<open>Properties\<close>

subsection \<open>The keys of the Peer Connection Table\<close>

lemma map_fst_map_entry: "map fst (AList.map_entry k f xs) = map fst xs"
  by (induction xs) auto

lemma keys_with_sender:
  "map fst (unicast_sender_dict (with_sender p f d)) = map fst (unicast_sender_dict d)"
  by (simp add: with_sender_def map_fst_map_entry)

lemma set_with_sender:
  "fst ` set (unicast_sender_dict (with_sender p f d)) = fst ` set (unicast_sender_dict d)"
  by (simp add: with_sender_def dom_map_entry)

lemma with_sender_other [simp]:
  "send_timeout (with_sender p f d) = send_timeout d"
  "receive_timeout (with_sender p f d) = receive_timeout d"
  "broadcast_sender (with_sender p f d) = broadcast_sender d"
  "unicast_receiver (with_sender p f d) = unicast_receiver d"
  "broadcast_receiver (with_sender p f d) = broadcast_receiver d"
  by (simp_all add: with_sender_def)

lemma connect_try_keys:
  "fst ` set (unicast_sender_dict (snd (connect_try E p k a d))) =
     fst ` set (unicast_sender_dict d) \<union>
     (if py_int E k = Returned zmq_PULL \<and> socket_error E p = None then {p} else {})"
  unfolding connect_try_def Let_def
  by (simp add: set_with_sender dom_update split: result.splits option.splits)

lemma connect_try_distinct:
  "distinct (map fst (unicast_sender_dict d)) \<Longrightarrow>
   distinct (map fst (unicast_sender_dict (snd (connect_try E p k a d))))"
  unfolding connect_try_def Let_def
  by (simp add: keys_with_sender distinct_update split: result.splits option.splits)

lemma snd_connect_entry: "snd (connect_entry E p x d) = snd (connect_try E p (fst x) (snd x) d)"
  by (simp add: connect_entry_def split: prod.splits result.splits)

lemma fst_connect_entry:
  "fst (connect_entry E p x d) =
     (case fst (connect_try E p (fst x) (snd x) d) of
        Raised e \<Rightarrow> Raised (PeersConnectionError p e) | Returned u \<Rightarrow> Returned u)"
  by (simp add: connect_entry_def split: prod.splits result.splits)

lemma connect_addresses_distinct:
  "distinct (map fst (unicast_sender_dict d)) \<Longrightarrow>
   distinct (map fst (unicast_sender_dict (snd (connect_addresses E p xs d))))"
proof (induction xs arbitrary: d)
  case Nil
  then show ?case by simp
next
  case (Cons x xs)
  have "distinct (map fst (unicast_sender_dict (snd (connect_entry E p x d))))"
    using Cons.prems by (simp add: snd_connect_entry connect_try_distinct)
  then show ?case
    using Cons.IH [of "snd (connect_entry E p x d)"]
    by (auto split: prod.splits result.splits)
qed

lemma connect_distinct:
  "distinct (map fst (unicast_sender_dict d)) \<Longrightarrow>
   distinct (map fst (unicast_sender_dict (snd (connect E d ps))))"
proof (induction ps arbitrary: d)
  case Nil
  then show ?case by simp
next
  case (Cons x xs)
  have "distinct (map fst (unicast_sender_dict (snd (connect_addresses E (fst x) (snd x) d))))"
    using Cons.prems by (rule connect_addresses_distinct)
  then show ?case
    using Cons.IH [of "snd (connect_addresses E (fst x) (snd x) d)"]
    by (auto split: prod.splits result.splits)
qed

subsection \<open>connect, taken apart\<close>

lemma connect_addresses_append:
  "connect_addresses E p xs d = (Returned (), d1) \<Longrightarrow>
   connect_addresses E p (xs @ ys) d = connect_addresses E p ys d1"
  by (induction xs arbitrary: d) (auto split: prod.splits result.splits)

lemma connect_append:
  "connect E d ps = (Returned (), d1) \<Longrightarrow> connect E d (ps @ qs) = connect E d1 qs"
  by (induction ps arbitrary: d) (auto split: prod.splits result.splits)

lemma connect_stops_at:
  assumes "connect E d pre = (Returned (), d1)"
    and "connect_addresses E p ads_pre d1 = (Returned (), d2)"
    and "connect_entry E p x d2 = (Raised e, d3)"
  shows "connect E d (pre @ (p, ads_pre @ x # ads_post) # post) = (Raised e, d3)"
proof -
  have "connect_addresses E p (ads_pre @ x # ads_post) d1 = (Raised e, d3)"
    using assms(2,3) by (simp add: connect_addresses_append)
  then have "connect E d1 ((p, ads_pre @ x # ads_post) # post) = (Raised e, d3)"
    by simp
  then show ?thesis
    using assms(1) by (simp add: connect_append)
qed

lemma connect_try_ok_keys:
  "connect_try E p k a d = (Returned (), d') \<Longrightarrow>
   fst ` set (unicast_sender_dict d') =
     fst ` set (unicast_sender_dict d) \<union> (if py_int E k = Returned zmq_PULL then {p} else {})"
  using connect_try_keys [of E p k a d]
  by (auto simp: connect_try_def Let_def split: result.splits option.splits if_splits)

lemma connect_entry_ok:
  "connect_entry E p x d = (Returned (), d') \<longleftrightarrow>
   connect_try E p (fst x) (snd x) d = (Returned (), d')"
  by (auto simp: connect_entry_def split: prod.splits result.splits)

lemma connect_addresses_ok_keys:
  "connect_addresses E p xs d = (Returned (), d') \<Longrightarrow>
   fst ` set (unicast_sender_dict d') =
     fst ` set (unicast_sender_dict d) \<union>
     (if \<exists>x \<in> set xs. py_int E (fst x) = Returned zmq_PULL then {p} else {})"
proof (induction xs arbitrary: d)
  case Nil
  then show ?case by simp
next
  case (Cons x xs)
  from Cons.prems obtain d1 where
    x: "connect_entry E p x d = (Returned (), d1)" and
    xs: "connect_addresses E p xs d1 = (Returned (), d')"
    by (auto split: prod.splits result.splits)
  from x have "connect_try E p (fst x) (snd x) d = (Returned (), d1)"
    by (simp add: connect_entry_ok)
  from connect_try_ok_keys [OF this] Cons.IH [OF xs] show ?case
    by auto
qed

lemma unicast_peers_Cons:
  "{p. \<exists>ads k a. (p, ads) \<in> set (x # xs) \<and> (k, a) \<in> set ads \<and> py_int E k = Returned zmq_PULL} =
   (if \<exists>e \<in> set (snd x). py_int E (fst e) = Returned zmq_PULL then {fst x} else {}) \<union>
   {p. \<exists>ads k a. (p, ads) \<in> set xs \<and> (k, a) \<in> set ads \<and> py_int E k = Returned zmq_PULL}"
proof (cases x)
  case (Pair q qs)
  show ?thesis
  proof (cases "\<exists>e \<in> set qs. py_int E (fst e) = Returned zmq_PULL")
    case True
    then obtain k a where "(k, a) \<in> set qs" "py_int E k = Returned zmq_PULL"
      by auto
    then show ?thesis
      using Pair True by auto
  next
    case False
    then have "\<And>k a. (k, a) \<in> set qs \<Longrightarrow> py_int E k \<noteq> Returned zmq_PULL"
      by auto
    then show ?thesis
      using Pair False by auto
  qed
qed

lemma connect_ok_keys:
  "connect E d ps = (Returned (), d') \<Longrightarrow>
   fst ` set (unicast_sender_dict d') =
     fst ` set (unicast_sender_dict d) \<union>
     {p. \<exists>ads k a. (p, ads) \<in> set ps \<and> (k, a) \<in> set ads \<and> py_int E k = Returned zmq_PULL}"
proof (induction ps arbitrary: d)
  case Nil
  then show ?case by simp
next
  case (Cons x xs)
  from Cons.prems obtain d1 where
    x: "connect_addresses E (fst x) (snd x) d = (Returned (), d1)" and
    xs: "connect E d1 xs = (Returned (), d')"
    by (auto split: prod.splits result.splits)
  show ?case
    unfolding unicast_peers_Cons Cons.IH [OF xs] connect_addresses_ok_keys [OF x]
    by (simp add: Un_assoc)
qed

lemma sample_connect_two:
  "connect env_ok driver0
      [(''peer1'', [(IntKey 7, ''tcp://h:1''), (StrKey ''2'', ''tcp://h:2'')]),
       (''peer2'', [(IntKey 2, ''tcp://g:2'')])] =
   (Returned (),
    driver0\<lparr>unicast_sender_dict :=
               [(''peer1'', \<lparr>sndtimeo = Some 100, connected = [''tcp://h:1''], sent = []\<rparr>)],
            broadcast_sender :=
               \<lparr>sndtimeo = Some 100, connected = [''tcp://h:2'', ''tcp://g:2''], sent = []\<rparr>\<rparr>)"
  by (simp add: connect_entry_def connect_try_def with_sender_def env_ok_def driver0_def
      fresh_socket_def zmq_PULL_def zmq_SUB_def)

subsection \<open>Which peers connect registers\<close>

text \<open>
  Claim C3, as amended. When \<open>connect\<close> returns, the names in the Peer Connection Table are
  the names that were there before together with the names of the peers that supplied at
  least one address of the unicast kind. A peer that supplied only a broadcast address
  gets no entry: the table holds PUSH sockets, and only a unicast address creates one.
\<close>

theorem connect_registers_unicast_peers:
  "connect E d peers = (Returned (), d') \<Longrightarrow>
   fst ` set (unicast_sender_dict d') =
     fst ` set (unicast_sender_dict d) \<union>
     {p. \<exists>ads k a. (p, ads) \<in> set peers \<and> (k, a) \<in> set ads \<and> py_int E k = Returned zmq_PULL}"
  by (rule connect_ok_keys)

theorem connect_registers_unicast_peers_witness:
  "fst (connect env_ok driver0
      [(''peer1'', [(IntKey 7, ''tcp://h:1''), (StrKey ''2'', ''tcp://h:2'')]),
       (''peer2'', [(IntKey 2, ''tcp://g:2'')])]) = Returned () \<and>
   ''peer1'' \<in> fst ` set (unicast_sender_dict
      (snd (connect env_ok driver0
        [(''peer1'', [(IntKey 7, ''tcp://h:1''), (StrKey ''2'', ''tcp://h:2'')]),
         (''peer2'', [(IntKey 2, ''tcp://g:2'')])])))"
proof -
  let ?peers = "[(''peer1'', [(IntKey 7, ''tcp://h:1''), (StrKey ''2'', ''tcp://h:2'')]),
                 (''peer2'', [(IntKey 2, ''tcp://g:2'')])]"
  have "(''peer1'', [(IntKey 7, ''tcp://h:1''), (StrKey ''2'', ''tcp://h:2'')]) \<in> set ?peers \<and>
        (IntKey 7, ''tcp://h:1'') \<in> set [(IntKey 7, ''tcp://h:1''), (StrKey ''2'', ''tcp://h:2'')] \<and>
        py_int env_ok (IntKey 7) = Returned zmq_PULL"
    by (simp add: zmq_PULL_def)
  then have "''peer1'' \<in> {p. \<exists>ads k a. (p, ads) \<in> set ?peers \<and> (k, a) \<in> set ads \<and>
                                py_int env_ok k = Returned zmq_PULL}"
    by blast
  with connect_registers_unicast_peers [OF sample_connect_two]
  have k: "''peer1'' \<in> fst ` set (unicast_sender_dict (snd (connect env_ok driver0 ?peers)))"
    unfolding sample_connect_two snd_conv by blast
  have r: "fst (connect env_ok driver0 ?peers) = Returned ()"
    by (simp only: sample_connect_two fst_conv)
  from r k show ?thesis
    by (rule conjI)
qed

theorem connect_broadcast_only_peer_counterexample:
  "fst (connect env_ok driver0 [(''peer2'', [(IntKey 2, ''tcp://g:2'')])]) = Returned () \<and>
   ''peer2'' \<notin> fst ` set (unicast_sender_dict
      (snd (connect env_ok driver0 [(''peer2'', [(IntKey 2, ''tcp://g:2'')])])))"
  by (simp add: connect_entry_def connect_try_def with_sender_def env_ok_def driver0_def
      fresh_socket_def zmq_PULL_def zmq_SUB_def)

subsection \<open>connect and unrecognized socket types\<close>

text \<open>
  Claim C2, as amended. When \<open>connect\<close> reaches an address entry whose key converts to an
  integer that is neither \<open>zmq.PULL\<close> nor \<open>zmq.SUB\<close>, the \<open>SocketTypeError\<close> raised at line 107
  is caught by the handler at line 108, and the call raises a \<open>PeersConnectionError\<close> that
  names the peer and carries the \<open>SocketTypeError\<close> as its cause. The entry itself registers
  nothing: the driver is left as the entries processed before it left it, so the peer has
  an endpoint in the table exactly when it had one before its entries were processed or an
  earlier unicast entry of its own created one.
\<close>

theorem connect_unrecognized_socket_type:
  assumes "connect E d pre = (Returned (), d1)"
    and "connect_addresses E p ads_pre d1 = (Returned (), d2)"
    and "py_int E k = Returned n"
    and "n \<noteq> zmq_PULL"
    and "n \<noteq> zmq_SUB"
  shows "connect E d (pre @ (p, ads_pre @ (k, a) # ads_post) # post) =
           (Raised (PeersConnectionError p (SocketTypeError k)), d2) \<and>
         (p \<in> fst ` set (unicast_sender_dict d2) \<longleftrightarrow>
            p \<in> fst ` set (unicast_sender_dict d1) \<or>
            (\<exists>x \<in> set ads_pre. py_int E (fst x) = Returned zmq_PULL))"
proof -
  have "connect_try E p k a d2 = (Raised (SocketTypeError k), d2)"
    using assms(3-5) by (simp add: connect_try_def)
  then have "connect_entry E p (k, a) d2 = (Raised (PeersConnectionError p (SocketTypeError k)), d2)"
    by (simp add: connect_entry_def)
  from connect_stops_at [OF assms(1,2) this]
  have "connect E d (pre @ (p, ads_pre @ (k, a) # ads_post) # post) =
          (Raised (PeersConnectionError p (SocketTypeError k)), d2)" .
  moreover have "p \<in> fst ` set (unicast_sender_dict d2) \<longleftrightarrow>
            p \<in> fst ` set (unicast_sender_dict d1) \<or>
            (\<exists>x \<in> set ads_pre. py_int E (fst x) = Returned zmq_PULL)"
    unfolding connect_addresses_ok_keys [OF assms(2)] by simp
  ultimately show ?thesis
    by (rule conjI)
qed

theorem connect_unrecognized_socket_type_witness:
  "connect env_ok driver0 [(''peer1'', [(IntKey 2, ''tcp://h:2''), (IntKey 99, ''tcp://h:9'')])] =
     (Raised (PeersConnectionError ''peer1'' (SocketTypeError (IntKey 99))),
      driver0\<lparr>broadcast_sender :=
                 \<lparr>sndtimeo = Some 100, connected = [''tcp://h:2''], sent = []\<rparr>\<rparr>) \<and>
   ''peer1'' \<notin> fst ` set (unicast_sender_dict
      (driver0\<lparr>broadcast_sender :=
                 \<lparr>sndtimeo = Some 100, connected = [''tcp://h:2''], sent = []\<rparr>\<rparr>))"
proof -
  have ads: "connect_addresses env_ok ''peer1'' [(IntKey 2, ''tcp://h:2'')] driver0 =
          (Returned (), driver0\<lparr>broadcast_sender :=
                 \<lparr>sndtimeo = Some 100, connected = [''tcp://h:2''], sent = []\<rparr>\<rparr>)"
    by (simp add: connect_entry_def connect_try_def env_ok_def driver0_def zmq_PULL_def zmq_SUB_def)
  have n: "py_int env_ok (IntKey 99) = Returned 99" "(99::int) \<noteq> zmq_PULL" "(99::int) \<noteq> zmq_SUB"
    by (simp_all add: zmq_PULL_def zmq_SUB_def)
  from connect_unrecognized_socket_type [OF connect.simps(1) ads n, of "''tcp://h:9''" "[]" "[]"]
  show ?thesis
    by (simp add: driver0_def zmq_PULL_def)
qed

theorem connect_unrecognized_socket_type_counterexample:
  "fst (connect env_ok driver0
          [(''peer1'', [(IntKey 7, ''tcp://h:1''), (IntKey 99, ''tcp://h:9'')])]) =
     Raised (PeersConnectionError ''peer1'' (SocketTypeError (IntKey 99))) \<and>
   fst (connect env_ok driver0
          [(''peer1'', [(IntKey 7, ''tcp://h:1''), (IntKey 99, ''tcp://h:9'')])]) \<noteq>
     Raised (SocketTypeError (IntKey 99)) \<and>
   ''peer1'' \<in> fst ` set (unicast_sender_dict (snd (connect env_ok driver0
          [(''peer1'', [(IntKey 7, ''tcp://h:1''), (IntKey 99, ''tcp://h:9'')])])))"
  by (simp add: connect_entry_def connect_try_def with_sender_def env_ok_def driver0_def
      fresh_socket_def zmq_PULL_def zmq_SUB_def)

subsection \<open>connect and failing connections\<close>

lemma connect_try_raised_elsewhere:
  "connect_try E p k a d = (Raised e, d') \<Longrightarrow>
   broadcast_sender d' = broadcast_sender d \<and>
   (\<forall>q. q \<noteq> p \<longrightarrow> map_of (unicast_sender_dict d') q = map_of (unicast_sender_dict d) q)"
  by (auto simp: connect_try_def Let_def with_sender_def map_of_map_entry update_conv'
      split: result.splits option.splits if_splits)

lemma sample_connect_down:
  "connect env_down driver0 [(''peer1'', [(IntKey 7, ''tcp://h:1'')])] =
   (Returned (),
    driver0\<lparr>unicast_sender_dict :=
               [(''peer1'', \<lparr>sndtimeo = Some 100, connected = [''tcp://h:1''], sent = []\<rparr>)]\<rparr>)"
  by (simp add: connect_entry_def connect_try_def with_sender_def env_down_def env_ok_def
      driver0_def fresh_socket_def zmq_PULL_def zmq_SUB_def)

lemma sample_try_down:
  "connect_try env_down ''peer2'' (IntKey 2) ''tcp://down:1''
     (driver0\<lparr>unicast_sender_dict :=
               [(''peer1'', \<lparr>sndtimeo = Some 100, connected = [''tcp://h:1''], sent = []\<rparr>)]\<rparr>) =
   (Raised (ZMQError ''refused''),
    driver0\<lparr>unicast_sender_dict :=
               [(''peer1'', \<lparr>sndtimeo = Some 100, connected = [''tcp://h:1''], sent = []\<rparr>)]\<rparr>)"
  by (simp add: connect_try_def with_sender_def env_down_def env_ok_def
      driver0_def fresh_socket_def zmq_PULL_def zmq_SUB_def)

text \<open>
  Claim C5. When the \<open>try\<close> block of some address entry of a peer raises, \<open>connect\<close> raises a
  \<open>PeersConnectionError\<close> that names this peer and carries the cause; the rest of the peer's
  entries and the remaining peers are not processed; and nothing is rolled back: the
  broadcast sender and every table entry under another name are as the peers and entries
  processed before the failure left them, and no name has left the table.
\<close>

theorem connect_failure_aborts_without_rollback:
  assumes "connect E d pre = (Returned (), d1)"
    and "connect_addresses E p ads_pre d1 = (Returned (), d2)"
    and "connect_try E p k a d2 = (Raised e, d3)"
  shows "connect E d (pre @ (p, ads_pre @ (k, a) # ads_post) # post) =
           (Raised (PeersConnectionError p e), d3) \<and>
         broadcast_sender d3 = broadcast_sender d2 \<and>
         (\<forall>q. q \<noteq> p \<longrightarrow> map_of (unicast_sender_dict d3) q = map_of (unicast_sender_dict d2) q) \<and>
         fst ` set (unicast_sender_dict d2) \<subseteq> fst ` set (unicast_sender_dict d3)"
proof -
  have "connect_entry E p (k, a) d2 = (Raised (PeersConnectionError p e), d3)"
    using assms(3) by (simp add: connect_entry_def)
  from connect_stops_at [OF assms(1,2) this]
  have stop: "connect E d (pre @ (p, ads_pre @ (k, a) # ads_post) # post) =
                (Raised (PeersConnectionError p e), d3)" .
  have "fst ` set (unicast_sender_dict d2) \<subseteq> fst ` set (unicast_sender_dict d3)"
    using connect_try_keys [of E p k a d2] assms(3) by auto
  with stop connect_try_raised_elsewhere [OF assms(3)] show ?thesis
    by blast
qed

theorem connect_failure_aborts_without_rollback_witness:
  "connect env_down driver0
     [(''peer1'', [(IntKey 7, ''tcp://h:1'')]),
      (''peer2'', [(IntKey 2, ''tcp://down:1''), (IntKey 7, ''tcp://g:1'')]),
      (''peer3'', [(IntKey 7, ''tcp://k:1'')])] =
   (Raised (PeersConnectionError ''peer2'' (ZMQError ''refused'')),
    driver0\<lparr>unicast_sender_dict :=
               [(''peer1'', \<lparr>sndtimeo = Some 100, connected = [''tcp://h:1''], sent = []\<rparr>)]\<rparr>)"
  using connect_failure_aborts_without_rollback
    [OF sample_connect_down connect_addresses.simps(1) sample_try_down,
     of "[(IntKey 7, ''tcp://g:1'')]" "[(''peer3'', [(IntKey 7, ''tcp://k:1'')])]"]
  by simp

lemma connect_try_unicast_refused:
  assumes "py_int E k = Returned zmq_PULL" and "socket_error E p = None"
    and "setsockopt_error E (send_timeout d) = None" and "connect_error E a = Some e"
  shows "connect_try E p k a d =
           (Raised e,
            with_sender p (\<lambda>s. s\<lparr>sndtimeo := Some (send_timeout d)\<rparr>)
              (d\<lparr>unicast_sender_dict := AList.update p fresh_socket (unicast_sender_dict d)\<rparr>))"
  using assms by (simp add: connect_try_def Let_def)

lemma lookup_configured:
  "map_of (unicast_sender_dict
     (with_sender p f (d\<lparr>unicast_sender_dict := AList.update p v (unicast_sender_dict d)\<rparr>))) p =
   Some (f v)"
  by (simp add: with_sender_def map_of_map_entry update_conv')

text \<open>
  Claim C9. For an entry of the unicast kind the socket is stored in the table (line 99)
  and its send timeout set (line 100) before the connection is attempted (line 101). So
  when the attempt fails, \<open>connect\<close> raises the \<open>PeersConnectionError\<close> and the table holds,
  under the failing peer's name, a socket with the send timeout and no connection.
\<close>

theorem connect_entry_exists_when_connection_fails:
  assumes "connect E d pre = (Returned (), d1)"
    and "connect_addresses E p ads_pre d1 = (Returned (), d2)"
    and "py_int E k = Returned zmq_PULL"
    and "socket_error E p = None"
    and "setsockopt_error E (send_timeout d2) = None"
    and "connect_error E a = Some e"
  shows "\<exists>d3. connect E d (pre @ (p, ads_pre @ (k, a) # ads_post) # post) =
                 (Raised (PeersConnectionError p e), d3) \<and>
              map_of (unicast_sender_dict d3) p =
                Some \<lparr>sndtimeo = Some (send_timeout d2), connected = [], sent = []\<rparr>"
proof -
  let ?d3 = "with_sender p (\<lambda>s. s\<lparr>sndtimeo := Some (send_timeout d2)\<rparr>)
               (d2\<lparr>unicast_sender_dict := AList.update p fresh_socket (unicast_sender_dict d2)\<rparr>)"
  have "connect_entry E p (k, a) d2 = (Raised (PeersConnectionError p e), ?d3)"
    using connect_try_unicast_refused [OF assms(3-6)] by (simp add: connect_entry_def)
  from connect_stops_at [OF assms(1,2) this]
  have "connect E d (pre @ (p, ads_pre @ (k, a) # ads_post) # post) =
          (Raised (PeersConnectionError p e), ?d3)" .
  moreover have "map_of (unicast_sender_dict ?d3) p =
                   Some \<lparr>sndtimeo = Some (send_timeout d2), connected = [], sent = []\<rparr>"
    by (simp add: lookup_configured fresh_socket_def)
  ultimately show ?thesis
    by blast
qed

theorem connect_entry_exists_when_connection_fails_witness:
  "\<exists>d3. connect env_down driver0
            [(''peer2'', [(StrKey ''7'', ''tcp://down:1'')]), (''peer3'', [(IntKey 7, ''tcp://k:1'')])] =
          (Raised (PeersConnectionError ''peer2'' (ZMQError ''refused'')), d3) \<and>
        map_of (unicast_sender_dict d3) ''peer2'' =
          Some \<lparr>sndtimeo = Some 100, connected = [], sent = []\<rparr>"
  using connect_entry_exists_when_connection_fails
    [of env_down driver0 "[]" driver0 "''peer2''" "[]" driver0 "StrKey ''7''" "''tcp://down:1''"
        "ZMQError ''refused''" "[]" "[(''peer3'', [(IntKey 7, ''tcp://k:1'')])]"]
  by (simp add: env_down_def env_ok_def driver0_def zmq_PULL_def)

subsection \<open>One endpoint for each peer name\<close>

lemma send_keys:
  "map fst (unicast_sender_dict (snd (send E d m))) = map fst (unicast_sender_dict d)"
  by (simp add: send_def send_try_def keys_with_sender split: option.splits)

lemma broadcast_keys:
  "unicast_sender_dict (snd (broadcast E d m)) = unicast_sender_dict d"
  by (simp add: broadcast_def broadcast_try_def split: option.splits)

lemma enqueue_table [simp]: "unicast_sender_dict (enqueue ep m d) = unicast_sender_dict d"
  by (cases ep) (simp_all add: enqueue_def set_queue_def)

lemma set_queue_table [simp]: "unicast_sender_dict (set_queue ep ms d) = unicast_sender_dict d"
  by (cases ep) (simp_all add: set_queue_def)

lemma poll_wait_table:
  "poll_wait t d evs = Some (r, d', evs') \<Longrightarrow> unicast_sender_dict d' = unicast_sender_dict d"
  by (induction t d evs rule: poll_wait.induct) (auto split: if_splits)

lemma poll_table:
  "poll t d evs = Some (r, d', evs') \<Longrightarrow> unicast_sender_dict d' = unicast_sender_dict d"
  by (auto simp: poll_def dest: poll_wait_table split: if_splits)

lemma recv_wait_table:
  "recv_wait ep d evs = Some (r, d', evs') \<Longrightarrow> unicast_sender_dict d' = unicast_sender_dict d"
  by (induction ep d evs rule: recv_wait.induct) (auto split: if_splits)

lemma recv_pyobj_table:
  "recv_pyobj ep d evs = Some (r, d', evs') \<Longrightarrow> unicast_sender_dict d' = unicast_sender_dict d"
  by (auto simp: recv_pyobj_def dest: recv_wait_table split: list.splits)

lemma receive_iteration_table:
  "receive_iteration d evs = Some (r, d', evs') \<Longrightarrow>
   unicast_sender_dict d' = unicast_sender_dict d"
  unfolding receive_iteration_def
  by (auto split: option.splits result.splits if_splits)
     (metis poll_table recv_pyobj_table, metis poll_table recv_pyobj_table, metis poll_table)

lemma receive_next_table:
  "receive_next c g d evs = Some (out, g', d', evs') \<Longrightarrow>
   unicast_sender_dict d' = unicast_sender_dict d"
  by (cases g)
     (auto simp: run_to_yield_def dest: receive_iteration_table
       split: option.splits result.splits if_splits)

lemma init_table: "init E proto snd_to rcv_to = Returned d \<Longrightarrow> unicast_sender_dict d = []"
  by (auto simp: init_def split: option.splits)

lemma reachable_distinct: "reachable d \<Longrightarrow> distinct (map fst (unicast_sender_dict d))"
proof (induction rule: reachable.induct)
  case (r_init E proto snd_to rcv_to d)
  then show ?case by (simp add: init_table)
next
  case (r_connect d E peers r d')
  from connect_distinct [OF r_connect.IH, of E peers] r_connect.hyps(2) show ?case by simp
next
  case (r_send d E m v d')
  from send_keys [of E d m] r_send.hyps(2) r_send.IH show ?case by simp
next
  case (r_broadcast d E m v d')
  from broadcast_keys [of E d m] r_broadcast.hyps(2) r_broadcast.IH show ?case by simp
next
  case (r_receive d c g evs out g' d' evs')
  from receive_next_table [OF r_receive.hyps(2)] r_receive.IH show ?case by simp
qed

lemma init_sample: "init env_ok ''tcp'' 100 50 = Returned driver0"
  by (simp add: init_def env_ok_def driver0_def fresh_socket_def)

lemma sample_connect_twice:
  "connect env_ok
     (snd (connect env_ok driver0 [(''peer1'', [(IntKey 7, ''tcp://h:1'')])]))
     [(''peer1'', [(IntKey 7, ''tcp://h:5'')])] =
   (Returned (),
    driver0\<lparr>unicast_sender_dict :=
               [(''peer1'', \<lparr>sndtimeo = Some 100, connected = [''tcp://h:5''], sent = []\<rparr>)]\<rparr>)"
  by (simp add: connect_entry_def connect_try_def with_sender_def env_ok_def driver0_def
      fresh_socket_def zmq_PULL_def zmq_SUB_def)

text \<open>
  Claim C8. In every state that construction followed by any sequence of \<open>connect\<close>,
  \<open>send\<close>, \<open>broadcast\<close> and \<open>receive\<close> steps can reach, whether the steps return or raise,
  the keys of the Peer Connection Table are distinct, and every peer name in the table is
  associated with exactly one outbound unicast endpoint.
\<close>

theorem table_one_endpoint_per_peer:
  "reachable d \<Longrightarrow>
   distinct (map fst (unicast_sender_dict d)) \<and>
   (\<forall>p \<in> fst ` set (unicast_sender_dict d). \<exists>!s. (p, s) \<in> set (unicast_sender_dict d))"
proof -
  assume "reachable d"
  then have dist: "distinct (map fst (unicast_sender_dict d))"
    by (rule reachable_distinct)
  have "\<exists>!s. (p, s) \<in> set (unicast_sender_dict d)" if "p \<in> fst ` set (unicast_sender_dict d)" for p
  proof -
    from that obtain s where "(p, s) \<in> set (unicast_sender_dict d)"
      by auto
    then show ?thesis
      using eq_key_imp_eq_value [OF dist] by blast
  qed
  with dist show ?thesis
    by blast
qed

theorem table_one_endpoint_per_peer_witness:
  "\<exists>!s. (''peer1'', s) \<in> set (unicast_sender_dict
     (driver0\<lparr>unicast_sender_dict :=
               [(''peer1'', \<lparr>sndtimeo = Some 100, connected = [''tcp://h:5''], sent = []\<rparr>)]\<rparr>))"
proof -
  have "reachable (snd (connect env_ok driver0 [(''peer1'', [(IntKey 7, ''tcp://h:1'')])]))"
    by (rule r_connect [OF r_init [OF init_sample] surjective_pairing])
  from r_connect [OF this sample_connect_twice]
  have "reachable (driver0\<lparr>unicast_sender_dict :=
               [(''peer1'', \<lparr>sndtimeo = Some 100, connected = [''tcp://h:5''], sent = []\<rparr>)]\<rparr>)" .
  from table_one_endpoint_per_peer [OF this] show ?thesis
    by simp
qed

subsection \<open>What send and broadcast return\<close>

text \<open>
  Claim C4. \<open>send\<close> to a destination that is absent from the Peer Connection Table
  returns a \<open>DriverSendError\<close> (caused by the \<open>KeyError\<close>); \<open>send\<close> whose write fails or
  times out returns a \<open>DriverSendError\<close> with that cause; \<open>broadcast\<close> whose write fails
  returns a \<open>DriverSendError\<close> too. In each case the error is the returned value and the
  driver is unchanged; neither operation ever raises.
\<close>

theorem send_errors_are_returned:
  "(map_of (unicast_sender_dict d) (destination m) = None \<longrightarrow>
      send E d m = (Returned (PyException (DriverSendError (KeyError (destination m)))), d)) \<and>
   (\<forall>s e. map_of (unicast_sender_dict d) (destination m) = Some s \<and> send_error E s m = Some e \<longrightarrow>
      send E d m = (Returned (PyException (DriverSendError e)), d)) \<and>
   (\<forall>e. send_error E (broadcast_sender d) m = Some e \<longrightarrow>
      broadcast E d m = (Returned (PyException (DriverSendError e)), d)) \<and>
   (\<exists>v. fst (send E d m) = Returned v) \<and>
   (\<exists>v. fst (broadcast E d m) = Returned v)"
  by (simp add: send_def send_try_def broadcast_def broadcast_try_def split: option.splits)

theorem send_errors_are_returned_witness:
  "send env_down driver0 (msg ''me'' ''nobody'') =
     (Returned (PyException (DriverSendError (KeyError ''nobody''))), driver0) \<and>
   send env_down
     (driver0\<lparr>unicast_sender_dict :=
        [(''peer1'', \<lparr>sndtimeo = Some 100, connected = [''tcp://h:1''], sent = []\<rparr>)]\<rparr>)
     (msg ''me'' ''peer1'') =
     (Returned (PyException (DriverSendError Again)),
      driver0\<lparr>unicast_sender_dict :=
        [(''peer1'', \<lparr>sndtimeo = Some 100, connected = [''tcp://h:1''], sent = []\<rparr>)]\<rparr>) \<and>
   broadcast env_down driver0 (msg ''me'' '''') =
     (Returned (PyException (DriverSendError Again)), driver0)"
proof -
  have a: "send env_down driver0 (msg ''me'' ''nobody'') =
     (Returned (PyException (DriverSendError (KeyError ''nobody''))), driver0)"
    using send_errors_are_returned [of driver0 "msg ''me'' ''nobody''" env_down]
    by (simp add: driver0_def msg_def)
  have b: "send env_down
     (driver0\<lparr>unicast_sender_dict :=
        [(''peer1'', \<lparr>sndtimeo = Some 100, connected = [''tcp://h:1''], sent = []\<rparr>)]\<rparr>)
     (msg ''me'' ''peer1'') =
     (Returned (PyException (DriverSendError Again)),
      driver0\<lparr>unicast_sender_dict :=
        [(''peer1'', \<lparr>sndtimeo = Some 100, connected = [''tcp://h:1''], sent = []\<rparr>)]\<rparr>)"
    using send_errors_are_returned
      [of "driver0\<lparr>unicast_sender_dict :=
        [(''peer1'', \<lparr>sndtimeo = Some 100, connected = [''tcp://h:1''], sent = []\<rparr>)]\<rparr>"
        "msg ''me'' ''peer1''" env_down]
    by (simp add: msg_def env_down_def)
  have c: "broadcast env_down driver0 (msg ''me'' '''') =
     (Returned (PyException (DriverSendError Again)), driver0)"
    using send_errors_are_returned [of driver0 "msg ''me'' ''''" env_down]
    by (simp add: env_down_def)
  from a b c show ?thesis
    by simp
qed

text \<open>
  Claim C10. When the write succeeds, \<open>send\<close> and \<open>broadcast\<close> return \<open>None\<close> (and the
  message has been handed to the socket). Whatever either of them returns is \<open>None\<close> or a
  \<open>DriverSendError\<close>, and it is \<open>None\<close> exactly when the write succeeded.
\<close>

theorem send_returns_none_or_error:
  "(\<forall>s. map_of (unicast_sender_dict d) (destination m) = Some s \<and> send_error E s m = None \<longrightarrow>
      send E d m =
        (Returned PyNone, with_sender (destination m) (\<lambda>s. s\<lparr>sent := sent s @ [m]\<rparr>) d)) \<and>
   (send_error E (broadcast_sender d) m = None \<longrightarrow>
      broadcast E d m =
        (Returned PyNone,
         d\<lparr>broadcast_sender := (broadcast_sender d)\<lparr>sent := sent (broadcast_sender d) @ [m]\<rparr>\<rparr>)) \<and>
   (\<forall>v. fst (send E d m) = Returned v \<longrightarrow> v = PyNone \<or> (\<exists>e. v = PyException (DriverSendError e))) \<and>
   (\<forall>v. fst (broadcast E d m) = Returned v \<longrightarrow>
      v = PyNone \<or> (\<exists>e. v = PyException (DriverSendError e))) \<and>
   (fst (send E d m) = Returned PyNone \<longleftrightarrow>
      (\<exists>s. map_of (unicast_sender_dict d) (destination m) = Some s \<and> send_error E s m = None)) \<and>
   (fst (broadcast E d m) = Returned PyNone \<longleftrightarrow> send_error E (broadcast_sender d) m = None)"
  by (auto simp: send_def send_try_def broadcast_def broadcast_try_def split: option.splits)

theorem send_returns_none_or_error_witness:
  "send env_ok
     (driver0\<lparr>unicast_sender_dict :=
        [(''peer1'', \<lparr>sndtimeo = Some 100, connected = [''tcp://h:1''], sent = []\<rparr>)]\<rparr>)
     (msg ''me'' ''peer1'') =
     (Returned PyNone,
      driver0\<lparr>unicast_sender_dict :=
        [(''peer1'', \<lparr>sndtimeo = Some 100, connected = [''tcp://h:1''],
                      sent = [msg ''me'' ''peer1'']\<rparr>)]\<rparr>) \<and>
   fst (broadcast env_ok driver0 (msg ''me'' '''')) = Returned PyNone"
proof -
  have a: "send env_ok
     (driver0\<lparr>unicast_sender_dict :=
        [(''peer1'', \<lparr>sndtimeo = Some 100, connected = [''tcp://h:1''], sent = []\<rparr>)]\<rparr>)
     (msg ''me'' ''peer1'') =
     (Returned PyNone,
      driver0\<lparr>unicast_sender_dict :=
        [(''peer1'', \<lparr>sndtimeo = Some 100, connected = [''tcp://h:1''],
                      sent = [msg ''me'' ''peer1'']\<rparr>)]\<rparr>)"
    using send_returns_none_or_error
      [of "driver0\<lparr>unicast_sender_dict :=
        [(''peer1'', \<lparr>sndtimeo = Some 100, connected = [''tcp://h:1''], sent = []\<rparr>)]\<rparr>"
        "msg ''me'' ''peer1''" env_ok]
    by (simp add: msg_def env_ok_def with_sender_def)
  have b: "fst (broadcast env_ok driver0 (msg ''me'' '''')) = Returned PyNone"
    using send_returns_none_or_error [of driver0 "msg ''me'' ''''" env_ok]
    by (simp add: env_ok_def)
  from a b show ?thesis
    by simp
qed

subsection \<open>receive: which endpoint is read\<close>

lemma poll_wait_ready:
  "poll_wait t d evs = Some (Returned socks, d', evs') \<Longrightarrow>
   (Unicast \<in> set socks \<longrightarrow> unicast_receiver d' \<noteq> []) \<and>
   (socks \<noteq> [] \<and> Unicast \<notin> set socks \<longrightarrow> broadcast_receiver d' \<noteq> [])"
proof (induction t d evs rule: poll_wait.induct)
  case (2 t d ep m evs)
  then show ?case
    by (cases ep) (auto simp: enqueue_def set_queue_def queue_def)
qed (auto split: if_splits)

lemma poll_ready:
  assumes "poll t d evs = Some (Returned socks, d', evs')"
  shows "(Unicast \<in> set socks \<longrightarrow> unicast_receiver d' \<noteq> []) \<and>
         (socks \<noteq> [] \<and> Unicast \<notin> set socks \<longrightarrow> broadcast_receiver d' \<noteq> [])"
proof (cases "ready d \<noteq> []")
  case True
  with assms have "socks = ready d" "d' = d"
    by (auto simp: poll_def)
  then show ?thesis
    by (auto simp: ready_def split: if_splits)
next
  case False
  with assms have "socks = [] \<or> poll_wait t d evs = Some (Returned socks, d', evs')"
    by (auto simp: poll_def split: if_splits)
  then show ?thesis
    using poll_wait_ready by auto
qed

lemma recv_pyobj_nonempty:
  "queue ep d \<noteq> [] \<Longrightarrow>
   recv_pyobj ep d evs = Some (Returned (hd (queue ep d)), set_queue ep (tl (queue ep d)) d, evs)"
  by (cases "queue ep d") (simp_all add: recv_pyobj_def)

text \<open>
  Claim C6. In a pass of the loop whose poll reports data, \<open>receive\<close> yields the message
  at the head of the unicast inbound queue when the unicast endpoint is among the ready
  ones, and the message at the head of the broadcast inbound queue otherwise. When both
  endpoints hold a message, the poll reports both and the unicast message is yielded.
\<close>

theorem receive_unicast_before_broadcast:
  "(\<forall>socks d' evs'.
      poll (receive_timeout d) d evs = Some (Returned socks, d', evs') \<and> socks \<noteq> [] \<longrightarrow>
      receive_next c Created d evs =
        (if Unicast \<in> set socks
         then Some (Yield (hd (unicast_receiver d')), Suspended,
                    d'\<lparr>unicast_receiver := tl (unicast_receiver d')\<rparr>, evs')
         else Some (Yield (hd (broadcast_receiver d')), Suspended,
                    d'\<lparr>broadcast_receiver := tl (broadcast_receiver d')\<rparr>, evs'))) \<and>
   (\<forall>u us b bs.
      unicast_receiver d = u # us \<and> broadcast_receiver d = b # bs \<longrightarrow>
      poll (receive_timeout d) d evs = Some (Returned [Unicast, Broadcast], d, evs) \<and>
      receive_next c Created d evs = Some (Yield u, Suspended, d\<lparr>unicast_receiver := us\<rparr>, evs))"
proof (intro conjI allI impI)
  fix socks d' evs'
  assume a: "poll (receive_timeout d) d evs = Some (Returned socks, d', evs') \<and> socks \<noteq> []"
  then have p: "poll (receive_timeout d) d evs = Some (Returned socks, d', evs')" and ne: "socks \<noteq> []"
    by simp_all
  show "receive_next c Created d evs =
        (if Unicast \<in> set socks
         then Some (Yield (hd (unicast_receiver d')), Suspended,
                    d'\<lparr>unicast_receiver := tl (unicast_receiver d')\<rparr>, evs')
         else Some (Yield (hd (broadcast_receiver d')), Suspended,
                    d'\<lparr>broadcast_receiver := tl (broadcast_receiver d')\<rparr>, evs'))"
  proof (cases "Unicast \<in> set socks")
    case True
    with poll_ready [OF p] have "queue Unicast d' \<noteq> []"
      by (simp add: queue_def)
    from recv_pyobj_nonempty [OF this, of evs'] True p show ?thesis
      by (simp add: run_to_yield_def receive_iteration_def queue_def set_queue_def)
  next
    case False
    with poll_ready [OF p] ne have "queue Broadcast d' \<noteq> []"
      by (simp add: queue_def)
    from recv_pyobj_nonempty [OF this, of evs'] False p show ?thesis
      by (simp add: run_to_yield_def receive_iteration_def queue_def set_queue_def)
  qed
next
  fix u us b bs
  assume q: "unicast_receiver d = u # us \<and> broadcast_receiver d = b # bs"
  then show "poll (receive_timeout d) d evs = Some (Returned [Unicast, Broadcast], d, evs)"
    by (simp add: poll_def ready_def)
  with q show "receive_next c Created d evs = Some (Yield u, Suspended, d\<lparr>unicast_receiver := us\<rparr>, evs)"
    by (simp add: run_to_yield_def receive_iteration_def recv_pyobj_def queue_def set_queue_def)
qed

theorem receive_unicast_before_broadcast_witness:
  "receive_next True Created
     (driver0\<lparr>unicast_receiver := [msg ''peer1'' ''me''],
              broadcast_receiver := [msg ''peer2'' '''']\<rparr>) [] =
   Some (Yield (msg ''peer1'' ''me''), Suspended,
         driver0\<lparr>unicast_receiver := [], broadcast_receiver := [msg ''peer2'' '''']\<rparr>, []) \<and>
   receive_next True Created driver0 [Arrive Broadcast (msg ''peer2'' '''')] =
   Some (Yield (msg ''peer2'' ''''), Suspended, driver0, [])"
proof -
  have a: "receive_next True Created
     (driver0\<lparr>unicast_receiver := [msg ''peer1'' ''me''],
              broadcast_receiver := [msg ''peer2'' '''']\<rparr>) [] =
   Some (Yield (msg ''peer1'' ''me''), Suspended,
         driver0\<lparr>unicast_receiver := [], broadcast_receiver := [msg ''peer2'' '''']\<rparr>, [])"
    using receive_unicast_before_broadcast
      [of "driver0\<lparr>unicast_receiver := [msg ''peer1'' ''me''],
              broadcast_receiver := [msg ''peer2'' '''']\<rparr>" "[]" True]
    by (simp add: driver0_def)
  have p: "poll (receive_timeout driver0) driver0 [Arrive Broadcast (msg ''peer2'' '''')] =
             Some (Returned [Broadcast],
                   driver0\<lparr>broadcast_receiver := [msg ''peer2'' '''']\<rparr>, [])"
    by (simp add: poll_def ready_def driver0_def enqueue_def set_queue_def queue_def)
  have b: "receive_next True Created driver0 [Arrive Broadcast (msg ''peer2'' '''')] =
   Some (Yield (msg ''peer2'' ''''), Suspended, driver0, [])"
    using receive_unicast_before_broadcast
      [of driver0 "[Arrive Broadcast (msg ''peer2'' '''')]" True] p
    by (simp add: driver0_def)
  from a b show ?thesis
    by (rule conjI)
qed

subsection \<open>receive: one message or a stream\<close>

lemma run_to_yield_state:
  "run_to_yield d evs = Some (out, g', d', evs') \<Longrightarrow>
   out \<noteq> StopIteration \<and> (g' = Suspended \<longleftrightarrow> (\<exists>m. out = Yield m)) \<and>
   (g' = Finished \<longleftrightarrow> (\<exists>e. out = Raise e))"
  by (auto simp: run_to_yield_def split: option.splits result.splits)

lemma receive_next_yield_suspends:
  "receive_next c g d evs = Some (Yield m, g', d', evs') \<Longrightarrow> g' = Suspended"
  by (cases g) (auto dest: run_to_yield_state split: if_splits)

lemma receive_take_once_suspended: "receive_take n False Suspended d evs = []"
  by (cases n) simp_all

lemma receive_take_once: "length (receive_take n False g d evs) \<le> 1"
proof (cases n)
  case 0
  then show ?thesis by simp
next
  case (Suc k)
  show ?thesis
  proof (cases "receive_next False g d evs")
    case None
    with Suc show ?thesis by simp
  next
    case (Some r)
    obtain out g' d' evs' where r: "r = (out, g', d', evs')"
      by (cases r) auto
    show ?thesis
    proof (cases out)
      case (Yield m)
      with Some r have "g' = Suspended"
        by (auto dest: receive_next_yield_suspends)
      with Suc Some r Yield show ?thesis
        by (simp add: receive_take_once_suspended)
    qed (use Suc Some r in simp_all)
  qed
qed

lemma run_to_yield_queued:
  "run_to_yield (d\<lparr>unicast_receiver := m # ms\<rparr>) evs =
   Some (Yield m, Suspended, d\<lparr>unicast_receiver := ms\<rparr>, evs)"
  by (simp add: run_to_yield_def receive_iteration_def poll_def ready_def recv_pyobj_def
      queue_def set_queue_def)

lemma receive_take_queued:
  "g \<noteq> Finished \<Longrightarrow>
   receive_take (length ms) True g (d\<lparr>unicast_receiver := ms\<rparr>) evs = ms"
proof (induction ms arbitrary: g d)
  case Nil
  then show ?case by simp
next
  case (Cons m ms)
  have "receive_next True g (d\<lparr>unicast_receiver := m # ms\<rparr>) evs =
          Some (Yield m, Suspended, d\<lparr>unicast_receiver := ms\<rparr>, evs)"
    using Cons.prems by (cases g) (simp_all add: run_to_yield_queued)
  then show ?case
    using Cons.IH [of Suspended d] by simp
qed

text \<open>
  Claim C7. With \<open>is_continuous\<close> false the generator yields at most one message, and the
  \<open>next()\<close> after the message stops it, whatever is still queued. With \<open>is_continuous\<close> true
  the \<open>next()\<close> after a message runs the loop body again; the generator never stops by
  itself and finishes only by raising; and it yields every one of any number of queued
  messages.
\<close>

theorem receive_once_or_forever:
  "length (receive_take n False g d evs) \<le> 1 \<and>
   receive_next False Suspended d evs = Some (StopIteration, Finished, d, evs) \<and>
   receive_next True Suspended d evs = receive_next True Created d evs \<and>
   (\<forall>out g' d' evs'.
      g \<noteq> Finished \<and> receive_next True g d evs = Some (out, g', d', evs') \<longrightarrow>
      out \<noteq> StopIteration \<and> (g' = Finished \<longleftrightarrow> (\<exists>e. out = Raise e))) \<and>
   receive_take (length ms) True Created (d\<lparr>unicast_receiver := ms\<rparr>) evs = ms"
proof -
  have "out \<noteq> StopIteration \<and> (g' = Finished \<longleftrightarrow> (\<exists>e. out = Raise e))"
    if "g \<noteq> Finished \<and> receive_next True g d evs = Some (out, g', d', evs')" for out g' d' evs'
  proof -
    from that have "run_to_yield d evs = Some (out, g', d', evs')"
      by (cases g) simp_all
    from run_to_yield_state [OF this] show ?thesis
      by simp
  qed
  then have "\<forall>out g' d' evs'.
      g \<noteq> Finished \<and> receive_next True g d evs = Some (out, g', d', evs') \<longrightarrow>
      out \<noteq> StopIteration \<and> (g' = Finished \<longleftrightarrow> (\<exists>e. out = Raise e))"
    by blast
  moreover have "receive_next False Suspended d evs = Some (StopIteration, Finished, d, evs)"
    by simp
  moreover have "receive_next True Suspended d evs = receive_next True Created d evs"
    by simp
  moreover have "receive_take (length ms) True Created (d\<lparr>unicast_receiver := ms\<rparr>) evs = ms"
    by (simp add: receive_take_queued)
  moreover note receive_take_once [of n g d evs]
  ultimately show ?thesis
    by blast
qed

theorem receive_once_or_forever_witness:
  "receive_take 3 False Created
     (driver0\<lparr>unicast_receiver := [msg ''a'' ''me'', msg ''b'' ''me'', msg ''c'' ''me'']\<rparr>) [] =
     [msg ''a'' ''me''] \<and>
   receive_take 3 True Created
     (driver0\<lparr>unicast_receiver := [msg ''a'' ''me'', msg ''b'' ''me'', msg ''c'' ''me'']\<rparr>) [] =
     [msg ''a'' ''me'', msg ''b'' ''me'', msg ''c'' ''me'']"
proof -
  have a: "receive_take 3 False Created
     (driver0\<lparr>unicast_receiver := [msg ''a'' ''me'', msg ''b'' ''me'', msg ''c'' ''me'']\<rparr>) [] =
     [msg ''a'' ''me'']"
    by (simp add: numeral_3_eq_3 run_to_yield_queued)
  have b: "receive_take 3 True Created
     (driver0\<lparr>unicast_receiver := [msg ''a'' ''me'', msg ''b'' ''me'', msg ''c'' ''me'']\<rparr>) [] =
     [msg ''a'' ''me'', msg ''b'' ''me'', msg ''c'' ''me'']"
  proof -
    have len: "length [msg ''a'' ''me'', msg ''b'' ''me'', msg ''c'' ''me''] = 3"
      by simp
    from receive_once_or_forever
      [of 0 Created driver0 "[]" "[msg ''a'' ''me'', msg ''b'' ''me'', msg ''c'' ''me'']"]
    have "receive_take (length [msg ''a'' ''me'', msg ''b'' ''me'', msg ''c'' ''me'']) True Created
            (driver0\<lparr>unicast_receiver := [msg ''a'' ''me'', msg ''b'' ''me'', msg ''c'' ''me'']\<rparr>) [] =
          [msg ''a'' ''me'', msg ''b'' ''me'', msg ''c'' ''me'']"
      by blast
    then show ?thesis
      by (simp only: len)
  qed
  from a b show ?thesis
    by (rule conjI)
qed

subsection \<open>receive: after the timeout\<close>

text \<open>
  Claim C1, evaluated on the code. The driver has a receive timeout of 50 ms and nothing
  queued. A unicast message that arrives before the timeout is yielded. When the timeout
  expires first, the poll returns the empty list, the test at line 124 fails, and line 128
  reads the broadcast socket without a timeout: the wait is not retried. A unicast
  message arriving afterwards is never yielded while no broadcast message arrives; when
  one does, it is yielded and the earlier unicast message stays queued; and a transport
  failure surfaces as the bare \<open>ZMQError\<close> of the read.
\<close>

theorem receive_after_timeout_waits_for_broadcast_only:
  "receive_next True Created driver0 [Arrive Unicast (msg ''peer1'' ''me'')] =
     Some (Yield (msg ''peer1'' ''me''), Suspended, driver0, []) \<and>
   receive_next True Created driver0 [Quiet, Arrive Unicast (msg ''peer1'' ''me'')] = None \<and>
   receive_next True Created driver0
     [Quiet, Arrive Unicast (msg ''peer1'' ''me''), Arrive Broadcast (msg ''peer2'' '''')] =
     Some (Yield (msg ''peer2'' ''''), Suspended,
           driver0\<lparr>unicast_receiver := [msg ''peer1'' ''me'']\<rparr>, []) \<and>
   receive_next True Created driver0 [Quiet, Failure ''terminated''] =
     Some (Raise (ZMQError ''terminated''), Finished, driver0, [])"
  by (simp add: run_to_yield_def receive_iteration_def poll_def ready_def recv_pyobj_def
      queue_def set_queue_def enqueue_def driver0_def)

end
